theory Spec2Isabelle
  imports Complex_Main "HOL-Library.Word"
begin

unbundle bit_operations_syntax

section \<open>Roomba-Kart: the per-controller tick of controller.py\<close>

text \<open>
  The development embeds the body of the inner loop of \<^verbatim>\<open>controller.py\<close> (one pass
  for one connected controller, called a tick below), the functions of
  \<^verbatim>\<open>controller_functions.py\<close> and the constants of \<^verbatim>\<open>controller_constants.py\<close>.

  Conventions of the embedding:
  \<^item> Python \<^verbatim>\<open>int\<close> is \<open>int\<close>. Python \<^verbatim>\<open>float\<close> is idealised as \<open>rat\<close>: every
    arithmetic operation is exact, there is no rounding, no infinity and no NaN.
    Where an exact product lies within rounding error of an integer, the source's
    \<^verbatim>\<open>int(...)\<close> may differ from the exact value by one; the concrete values
    evaluated below (300, 500, -969, 1819) are the ones binary64 gives as well.
    Values that the script handles as either an int or a float (the velocity) carry
    their Python type as a tag (\<open>pynum\<close>), because \<^verbatim>\<open>bytearray\<close> tells them apart.
  \<^item> The serial device and \<^verbatim>\<open>time.sleep\<close> are a \<open>world\<close>: the chronological trace
    of writes, reads and sleeps, and the replies that the device will give to the
    coming \<^verbatim>\<open>read\<close> calls. A reply is the bytes object that one \<^verbatim>\<open>read\<close> call
    returns; an empty reply is a read that returned no data.
  \<^item> An exception is a value of \<open>error\<close>. A function that can raise returns the
    exception (if any) together with the state reached when it was raised, since
    the assignments and writes made before the raise stay made.
  \<^item> \<^verbatim>\<open>time.time()\<close>, \<^verbatim>\<open>random.choice\<close> and the controller's axes and button are
    inputs of the tick (\<open>sample\<close>). \<^verbatim>\<open>print\<close> is not modelled.
\<close>

subsection \<open>Python values and exceptions\<close>

type_synonym pyfloat = rat
type_synonym byte = "8 word"

datatype pynum = PInt int | PFloat pyfloat

datatype error = NameError string | IndexError | TypeError | ValueError

text \<open>\<^verbatim>\<open>int(x)\<close> on a float truncates towards zero.\<close>

definition py_int :: "pyfloat \<Rightarrow> int" where
  "py_int x = (if 0 \<le> x then \<lfloor>x\<rfloor> else \<lceil>x\<rceil>)"

text \<open>
  \<^verbatim>\<open>a // b\<close> and \<^verbatim>\<open>a % b\<close> with an int literal \<open>b\<close> on the right: floor division and
  its remainder; the result is an int when \<open>a\<close> is an int and a float when \<open>a\<close> is a
  float. The script only uses \<open>b = 256\<close>, so division by zero does not arise.
\<close>

fun py_floordiv :: "pynum \<Rightarrow> int \<Rightarrow> pynum" where
  "py_floordiv (PInt a) b = PInt (a div b)"
| "py_floordiv (PFloat a) b = PFloat (of_int \<lfloor>a / of_int b\<rfloor>)"

fun py_mod :: "pynum \<Rightarrow> int \<Rightarrow> pynum" where
  "py_mod (PInt a) b = PInt (a mod b)"
| "py_mod (PFloat a) b = PFloat (a - of_int b * of_int \<lfloor>a / of_int b\<rfloor>)"

text \<open>
  \<^verbatim>\<open>bytearray(xs)\<close> on a list of numbers: the elements are converted in order; a
  float raises TypeError, an int outside \<open>range(256)\<close> raises ValueError.
\<close>

fun bytearray :: "pynum list \<Rightarrow> error + byte list" where
  "bytearray [] = Inr []"
| "bytearray (PFloat x # xs) = Inl TypeError"
| "bytearray (PInt i # xs) =
     (if 0 \<le> i \<and> i < 256
      then (case bytearray xs of Inl e \<Rightarrow> Inl e | Inr bs \<Rightarrow> Inr (word_of_int i # bs))
      else Inl ValueError)"

subsection \<open>controller\_constants.py\<close>

definition DRIVE :: "int list" where
  "DRIVE = [137]"

definition STOP :: "byte list" where
  "STOP = [137, 0, 0, 0, 0]"

definition POLL_BUMPERS_AND_DROPS :: "byte list" where
  "POLL_BUMPERS_AND_DROPS = [142, 7]"

definition MAX_VELOCITY_NO_ITEMS :: int where
  "MAX_VELOCITY_NO_ITEMS = 300"

definition MAX_VELOCITY_W_SHROOM :: int where
  "MAX_VELOCITY_W_SHROOM = 500"

definition MAX_VELOCITY_W_STAR :: int where
  "MAX_VELOCITY_W_STAR = 425"

definition MUSHROOM_DURATION :: pyfloat where
  "MUSHROOM_DURATION = 3 / 2"

definition STAR_DURATION :: pyfloat where
  "STAR_DURATION = 6"

definition WOBBLE_DURATION :: pyfloat where
  "WOBBLE_DURATION = 12 / 10"

definition MIN_RADIUS :: int where
  "MIN_RADIUS = - 1700"

definition MAX_RADIUS :: int where
  "MAX_RADIUS = 1700"

definition THRESHOLD :: pyfloat where
  "THRESHOLD = 7 / 100"

datatype item = Mushroom | Star

definition ITEMS :: "item list" where
  "ITEMS = [Mushroom, Star]"

subsection \<open>The serial device and the clock\<close>

datatype event = Write "byte list" | Read nat "byte list" | Sleep pyfloat

record world =
  replies :: "byte list list"
  trace :: "event list"

definition serial_write :: "byte list \<Rightarrow> world \<Rightarrow> world" where
  "serial_write bs w = w\<lparr>trace := trace w @ [Write bs]\<rparr>"

text \<open>
  \<^verbatim>\<open>read(n)\<close> returns the next reply, at most \<open>n\<close> bytes of it; when the device has
  nothing more to say it returns the empty bytes object.
\<close>

definition serial_read :: "nat \<Rightarrow> world \<Rightarrow> byte list \<times> world" where
  "serial_read n w =
     (case replies w of
        [] \<Rightarrow> ([], w\<lparr>trace := trace w @ [Read n []]\<rparr>)
      | r # rs \<Rightarrow> (take n r, w\<lparr>replies := rs, trace := trace w @ [Read n (take n r)]\<rparr>))"

definition time_sleep :: "pyfloat \<Rightarrow> world \<Rightarrow> world" where
  "time_sleep d w = w\<lparr>trace := trace w @ [Sleep d]\<rparr>"

text \<open>\<^verbatim>\<open>bs[0]\<close> on a bytes object: the first byte as an int, IndexError when empty.\<close>

definition index0 :: "byte list \<Rightarrow> error + int" where
  "index0 bs = (case bs of [] \<Rightarrow> Inl IndexError | b # _ \<Rightarrow> Inr (uint b))"

subsection \<open>controller\_functions.py\<close>

text \<open>
  The names bound at module level in \<^verbatim>\<open>controller_functions.py\<close>: its two imports
  (\<^verbatim>\<open>import time\<close> and
  \<^verbatim>\<open>from controller_constants import POLL_BUMPERS_AND_DROPS as POLL_SENSORS\<close>) and its
  four functions. A name that is neither local, nor in this list, nor a builtin
  raises NameError when it is evaluated.
\<close>

definition module_names :: "string list" where
  "module_names =
     [''time'', ''POLL_SENSORS'', ''detect_front_collision'',
      ''apply_forward_velocity'', ''apply_backward_velocity'', ''apply_turning_radius'']"

text \<open>
  The \<^verbatim>\<open>for x in range(3)\<close> loop of \<^verbatim>\<open>detect_front_collision\<close>: \<open>wobble n\<close> runs \<open>n\<close>
  iterations of its body.
\<close>

fun wobble :: "nat \<Rightarrow> pyfloat \<Rightarrow> world \<Rightarrow> world" where
  "wobble 0 wobble_duration w = w"
| "wobble (Suc n) wobble_duration w =
     wobble n wobble_duration
       (time_sleep (wobble_duration / 6)
         (serial_write [137, 255, 176, 255, 205]
           (time_sleep (wobble_duration / 6)
             (serial_write [137, 255, 176, 0, 50] w))))"

text \<open>
  \<^verbatim>\<open>detect_front_collision\<close>. Its first statement is
  \<^verbatim>\<open>serial_obj.write(cc.POLL_SENSORS)\<close>: the argument is evaluated first, and that
  evaluation starts by looking up the name \<^verbatim>\<open>cc\<close> in the module.
\<close>

definition detect_front_collision :: "world \<Rightarrow> bool \<Rightarrow> pyfloat \<Rightarrow> error option \<times> world" where
  "detect_front_collision serial_obj used_invincibility_item wobble_duration =
     (if ''cc'' \<notin> set module_names then (Some (NameError ''cc''), serial_obj)
      else
        let w1 = serial_write POLL_BUMPERS_AND_DROPS serial_obj;
            (bs, w2) = serial_read 1 w1
        in case index0 bs of
             Inl e \<Rightarrow> (Some e, w2)
           | Inr b \<Rightarrow>
               let bumper_depressed = b AND 3
               in if bumper_depressed \<noteq> 0 \<and> \<not> used_invincibility_item
                  then (None, wobble 3 wobble_duration w2)
                  else (None, w2))"

definition apply_forward_velocity :: "int \<Rightarrow> pyfloat \<Rightarrow> int" where
  "apply_forward_velocity given_max_velocity trigger_value =
     py_int ((trigger_value + 1) / 2 * of_int given_max_velocity)"

definition apply_backward_velocity :: "int \<Rightarrow> pyfloat \<Rightarrow> int" where
  "apply_backward_velocity given_max_velocity trigger_value =
     - py_int ((trigger_value + 1) / 2 * of_int given_max_velocity)"

definition apply_turning_radius :: "pyfloat \<Rightarrow> pyfloat \<Rightarrow> int \<Rightarrow> int \<Rightarrow> int list" where
  "apply_turning_radius stick_x_pos given_threshold min_rad max_rad =
     (if stick_x_pos = 0 then [128, 0]
      else
        let rad = (if stick_x_pos > 0
                   then py_int (of_int min_rad * (1 - stick_x_pos + given_threshold))
                   else py_int (of_int max_rad * (1 + stick_x_pos + given_threshold)))
        in [(rad div 256) mod 256] @ [rad mod 256])"

subsection \<open>controller.py: the state kept between ticks\<close>

text \<open>
  The script's module-level item variables. \<^verbatim>\<open>time_item_used\<close> is not assigned
  before the loop: it is unbound (\<open>None\<close> here) until an item is used for the first
  time, and reading it while unbound raises NameError.
\<close>

record items =
  has_mushroom :: bool
  has_star :: bool
  used_mushroom :: bool
  used_star :: bool
  elapsed_time :: pyfloat
  time_item_used :: "pyfloat option"

definition initial_items :: items where
  "initial_items =
     \<lparr>has_mushroom = False, has_star = False, used_mushroom = False, used_star = False,
      elapsed_time = 0, time_item_used = None\<rparr>"

text \<open>
  What one tick reads from outside the program: the three axes and the button of the
  controller, the value that \<^verbatim>\<open>random.choice(cc.ITEMS)\<close> returns if it is called, and
  the values that \<^verbatim>\<open>time.time()\<close> returns if it is called when an item is used
  (lines 208 and 213) and in the effect stage (lines 226 and 238).
\<close>

record sample =
  axis0 :: pyfloat
  axis5 :: pyfloat
  axis2 :: pyfloat
  button0 :: bool
  random_choice :: item
  time_at_use :: pyfloat
  time_at_effect :: pyfloat

subsection \<open>controller.py: the stages of a tick\<close>

text \<open>Poll Sticks (lines 159--163): the deadzone on the steering axis.\<close>

definition poll_sticks :: "pyfloat \<Rightarrow> pyfloat" where
  "poll_sticks lstick_horiz_pos =
     (if \<bar>lstick_horiz_pos\<bar> < THRESHOLD then 0 else lstick_horiz_pos)"

text \<open>Poll Triggers (lines 167--177): forward movement overrides backward movement.\<close>

definition driving_forward :: "pyfloat \<Rightarrow> bool" where
  "driving_forward right_trigger_value = (right_trigger_value + 1 > THRESHOLD)"

definition driving_backward :: "pyfloat \<Rightarrow> pyfloat \<Rightarrow> bool" where
  "driving_backward right_trigger_value left_trigger_value =
     (\<not> right_trigger_value + 1 > THRESHOLD \<and> left_trigger_value + 1 > THRESHOLD)"

text \<open>
  Item Generation (lines 193--202). \<open>wheel_dropped\<close> is the masked sensor byte, true
  when it is not zero; \<open>generated_item\<close> is the value of \<^verbatim>\<open>random.choice\<close>, which is
  only called when a wheel dropped.
\<close>

definition item_generation :: "int \<Rightarrow> item \<Rightarrow> items \<Rightarrow> items" where
  "item_generation wheel_dropped generated_item st =
     (let has_item = has_mushroom st \<or> has_star st
      in if wheel_dropped \<noteq> 0
         then (if generated_item = Mushroom \<and> \<not> has_item then st\<lparr>has_mushroom := True\<rparr>
               else if generated_item = Star \<and> \<not> has_item then st\<lparr>has_star := True\<rparr>
               else st)
         else st)"

text \<open>Item Usage (lines 204--213).\<close>

definition item_usage :: "bool \<Rightarrow> pyfloat \<Rightarrow> items \<Rightarrow> items" where
  "item_usage used_item now st =
     (if has_mushroom st \<and> used_item
      then st\<lparr>has_mushroom := False, used_mushroom := True, time_item_used := Some now\<rparr>
      else if has_star st \<and> used_item
      then st\<lparr>has_star := False, used_star := True, time_item_used := Some now\<rparr>
      else st)"

text \<open>
  \<^verbatim>\<open>elapsed_time = time.time() - time_item_used\<close> (lines 226 and 238), with the
  velocity already assigned when it runs.
\<close>

definition measure_elapsed :: "pyfloat \<Rightarrow> pynum \<Rightarrow> items \<Rightarrow> error option \<times> pynum \<times> items" where
  "measure_elapsed now velocity st =
     (case time_item_used st of
        None \<Rightarrow> (Some (NameError ''time_item_used''), velocity, st)
      | Some t \<Rightarrow> (None, velocity, st\<lparr>elapsed_time := now - t\<rparr>))"

text \<open>
  The trigger-proportional velocity under a given maximum (lines 232--237 and
  246--251); \<open>velocity\<close> is the value the variable has before, which stays when no
  trigger is pulled.
\<close>

definition trigger_velocity :: "int \<Rightarrow> bool \<Rightarrow> bool \<Rightarrow> pyfloat \<Rightarrow> pyfloat \<Rightarrow> pynum \<Rightarrow> pynum" where
  "trigger_velocity given_max fwd bwd right_trigger_value left_trigger_value velocity =
     (if fwd then PInt (apply_forward_velocity given_max right_trigger_value)
      else if bwd then PInt (apply_backward_velocity given_max left_trigger_value)
      else velocity)"

text \<open>
  Item Effects and Duration (lines 215--252). The result is the exception raised (if
  any), the velocity and the item variables.
\<close>

definition item_effects ::
  "bool \<Rightarrow> bool \<Rightarrow> pyfloat \<Rightarrow> pyfloat \<Rightarrow> pyfloat \<Rightarrow> items \<Rightarrow> error option \<times> pynum \<times> items" where
  "item_effects fwd bwd right_trigger_value left_trigger_value now st =
     (let velocity = PFloat 0
      in if used_mushroom st \<or> used_star st
         then (if used_mushroom st \<and> elapsed_time st < MUSHROOM_DURATION
               then measure_elapsed now (PInt MAX_VELOCITY_W_SHROOM) st
               else if used_mushroom st \<and> elapsed_time st > MUSHROOM_DURATION
               then (None, velocity, st\<lparr>used_mushroom := False\<rparr>)
               else if used_star st \<and> elapsed_time st < STAR_DURATION
               then measure_elapsed now
                      (trigger_velocity MAX_VELOCITY_W_STAR fwd bwd
                         right_trigger_value left_trigger_value velocity) st
               else if used_star st \<and> elapsed_time st > STAR_DURATION
               then (None, velocity, st\<lparr>used_star := False\<rparr>)
               else (None, velocity, st))
         else (None,
               trigger_velocity MAX_VELOCITY_NO_ITEMS fwd bwd
                 right_trigger_value left_trigger_value velocity,
               st\<lparr>elapsed_time := 0\<rparr>))"

text \<open>Final Velocity Byte Calculation (line 256).\<close>

definition velocity_bytes :: "pynum \<Rightarrow> pynum list" where
  "velocity_bytes velocity = [py_mod (py_floordiv velocity 256) 256] @ [py_mod velocity 256]"

text \<open>
  Drive Roomba (line 265): the packet is built first; the write happens only if
  \<^verbatim>\<open>bytearray\<close> returns.
\<close>

definition drive_roomba :: "pynum list \<Rightarrow> int list \<Rightarrow> world \<Rightarrow> error option \<times> world" where
  "drive_roomba vel_bytes radius_bytes roomba =
     (case bytearray (map PInt DRIVE @ vel_bytes @ map PInt radius_bytes) of
        Inl e \<Rightarrow> (Some e, roomba)
      | Inr packet \<Rightarrow> (None, serial_write packet roomba))"

subsection \<open>controller.py: the tick and the loop\<close>

text \<open>
  The body of \<^verbatim>\<open>for controller in controllers.values()\<close> (lines 149--265) for one
  controller. \<open>using_wobble\<close> is the answer given at startup.
\<close>

definition tick :: "bool \<Rightarrow> sample \<Rightarrow> items \<times> world \<Rightarrow> error option \<times> items \<times> world" where
  "tick using_wobble s = (\<lambda>(st, roomba).
     case (if using_wobble
           then detect_front_collision roomba (used_star st) WOBBLE_DURATION
           else (None, roomba)) of
       (Some e, w0) \<Rightarrow> (Some e, st, w0)
     | (None, w0) \<Rightarrow>
         let lstick_horiz_pos = poll_sticks (axis0 s);
             right_trigger_value = axis5 s;
             left_trigger_value = axis2 s;
             fwd = driving_forward right_trigger_value;
             bwd = driving_backward right_trigger_value left_trigger_value;
             used_item = button0 s;
             w1 = serial_write POLL_BUMPERS_AND_DROPS w0;
             (bs, w2) = serial_read 1 w1
         in case index0 bs of
              Inl e \<Rightarrow> (Some e, st, w2)
            | Inr b \<Rightarrow>
                let wheel_dropped = b AND 12;
                    st1 = item_generation wheel_dropped (random_choice s) st;
                    st2 = item_usage used_item (time_at_use s) st1
                in case item_effects fwd bwd right_trigger_value left_trigger_value
                          (time_at_effect s) st2 of
                     (Some e, velocity, st3) \<Rightarrow> (Some e, st3, w2)
                   | (None, velocity, st3) \<Rightarrow>
                       let radius_bytes =
                             apply_turning_radius lstick_horiz_pos THRESHOLD MIN_RADIUS MAX_RADIUS;
                           (e, w3) = drive_roomba (velocity_bytes velocity) radius_bytes w2
                       in (e, st3, w3))"

text \<open>
  The \<^verbatim>\<open>while True\<close> loop, one sample per pass of its inner loop. Nothing in the
  script catches an exception, so the first tick that raises ends the run; the
  samples that remain are never read. (The pygame event handling at the head of
  the outer loop is outside this model.)
\<close>

fun main_loop :: "bool \<Rightarrow> sample list \<Rightarrow> items \<times> world \<Rightarrow> error option \<times> items \<times> world" where
  "main_loop using_wobble [] (st, roomba) = (None, st, roomba)"
| "main_loop using_wobble (s # ss) (st, roomba) =
     (case tick using_wobble s (st, roomba) of
        (Some e, st', w') \<Rightarrow> (Some e, st', w')
      | (None, st', w') \<Rightarrow> main_loop using_wobble ss (st', w'))"

section \<open>Properties\<close>

subsection \<open>Reading the trace\<close>

text \<open>The byte strings written to the device, in order.\<close>

fun writes_of :: "event list \<Rightarrow> byte list list" where
  "writes_of [] = []"
| "writes_of (Write bs # es) = bs # writes_of es"
| "writes_of (Read n bs # es) = writes_of es"
| "writes_of (Sleep d # es) = writes_of es"

text \<open>The \<^verbatim>\<open>read\<close> calls, in order: the number of bytes asked for and the bytes returned.\<close>

fun reads_of :: "event list \<Rightarrow> (nat \<times> byte list) list" where
  "reads_of [] = []"
| "reads_of (Read n bs # es) = (n, bs) # reads_of es"
| "reads_of (Write bs # es) = reads_of es"
| "reads_of (Sleep d # es) = reads_of es"

text \<open>The events that a computation added to the trace it started from.\<close>

definition added :: "world \<Rightarrow> world \<Rightarrow> event list" where
  "added w w' = drop (length (trace w)) (trace w')"

subsection \<open>The wire format, as the specification words it\<close>

text \<open>
  The big-endian two's-complement 16-bit encoding of a value: the value as a 16-bit
  word, high byte first. This definition follows the specification, not the code;
  the code's byte pair is compared with it below.
\<close>

definition be16 :: "int \<Rightarrow> int list" where
  "be16 v = (let w = (word_of_int v :: 16 word)
             in [uint (ucast (drop_bit 8 w) :: 8 word), uint (ucast w :: 8 word)])"

text \<open>Decoding a byte pair: the unsigned 16-bit value, read as two's complement.\<close>

definition decode_be16 :: "int list \<Rightarrow> int" where
  "decode_be16 bs = sint (word_of_int (bs ! 0 * 256 + bs ! 1) :: 16 word)"


text \<open>
  The radius that the device reads from the byte pair that \<^verbatim>\<open>apply_turning_radius\<close>
  returns under the script's constants.
\<close>

definition decoded_radius :: "pyfloat \<Rightarrow> int" where
  "decoded_radius x = decode_be16 (apply_turning_radius x THRESHOLD MIN_RADIUS MAX_RADIUS)"

lemma writes_of_append: "writes_of (xs @ ys) = writes_of xs @ writes_of ys"
  by (induction xs rule: writes_of.induct) simp_all

lemma reads_of_append: "reads_of (xs @ ys) = reads_of xs @ reads_of ys"
  by (induction xs rule: reads_of.induct) simp_all

subsection \<open>The collision check\<close>

lemma cc_unbound: "''cc'' \<notin> set module_names"
  by (simp add: module_names_def)

text \<open>
  C4. As the function is written, the collision check never reaches its bumper test:
  whatever the device would answer and whether or not the star is in use, the call
  raises NameError for \<^verbatim>\<open>cc\<close> before it writes or reads anything, and a tick with
  wobble enabled ends there, with the item variables and the device untouched.
\<close>

theorem collision_check_raises:
  "detect_front_collision w used_invincibility_item wobble_duration = (Some (NameError ''cc''), w)
   \<and> tick True s (st, w) = (Some (NameError ''cc''), st, w)"
  by (simp add: tick_def detect_front_collision_def cc_unbound)

text \<open>
  The loop on its own: three iterations add six writes, the two hand-written drive
  packets in alternation, each followed by a sleep of a sixth of the duration, and
  read nothing.
\<close>

lemma wobble_loop_trace:
  "added w (wobble 3 d w) =
     [Write [137, 255, 176, 0, 50], Sleep (d / 6), Write [137, 255, 176, 255, 205], Sleep (d / 6),
      Write [137, 255, 176, 0, 50], Sleep (d / 6), Write [137, 255, 176, 255, 205], Sleep (d / 6),
      Write [137, 255, 176, 0, 50], Sleep (d / 6), Write [137, 255, 176, 255, 205], Sleep (d / 6)]"
  by (simp add: added_def numeral_3_eq_3 serial_write_def time_sleep_def)

text \<open>
  C8. Under the trigger condition (wobble enabled, a bumper bit set in the sensor
  reply, no star in use, the configured duration of 1.2 seconds) the collision check
  does not reach that loop: it raises NameError for \<^verbatim>\<open>cc\<close> before its first write, it
  adds no write and no sleep to the trace, and the run ends with that exception.
\<close>

theorem triggered_wobble_issues_nothing:
  "uint (1 :: byte) AND 3 \<noteq> 0
   \<and> detect_front_collision \<lparr>replies = [[1]], trace = []\<rparr> False WOBBLE_DURATION
       = (Some (NameError ''cc''), \<lparr>replies = [[1]], trace = []\<rparr>)
   \<and> added \<lparr>replies = [[1]], trace = []\<rparr>
         (snd (detect_front_collision \<lparr>replies = [[1]], trace = []\<rparr> False WOBBLE_DURATION)) = []
   \<and> main_loop True
         [\<lparr>axis0 = 0, axis5 = 1, axis2 = - 1, button0 = False, random_choice = Star,
            time_at_use = 10, time_at_effect = 10\<rparr>]
         (initial_items, \<lparr>replies = [[1]], trace = []\<rparr>)
       = (Some (NameError ''cc''), initial_items, \<lparr>replies = [[1]], trace = []\<rparr>)"
  by (simp add: detect_front_collision_def cc_unbound added_def tick_def)

subsection \<open>Byte pairs and the drive packet\<close>

lemma mod_65536_256: "(v::int) mod 65536 mod 256 = v mod 256"
  by (rule mod_mod_cancel) simp

lemma mod_65536_split: "(v::int) mod 65536 = v mod 256 + 256 * (v div 256 mod 256)"
proof -
  have "v mod (256 * 256) = 256 * (v div 256 mod 256) + v mod 256"
    by (rule zmod_zmult2_eq) simp
  then show ?thesis by simp
qed

lemma div_mod_65536: "(v::int) mod 65536 div 256 = v div 256 mod 256"
  by (simp add: mod_65536_split)

lemma be16_bytes: "be16 v = [(v div 256) mod 256, v mod 256]"
proof -
  have lo: "uint (ucast (word_of_int v :: 16 word) :: 8 word) = v mod 256"
    by (simp add: uint_word_of_int unsigned_ucast_eq take_bit_eq_mod min_def mod_65536_256)
  have w: "uint (word_of_int v :: 16 word) = v mod 65536"
    by (simp add: uint_word_of_int take_bit_eq_mod)
  have "uint (drop_bit 8 (word_of_int v :: 16 word)) = drop_bit 8 (uint (word_of_int v :: 16 word))"
    by (simp add: unsigned_drop_bit_eq w take_bit_eq_mod)
  then have d: "uint (drop_bit 8 (word_of_int v :: 16 word)) = v mod 65536 div 256"
    by (simp add: w drop_bit_eq_div)
  have "uint (ucast (drop_bit 8 (word_of_int v :: 16 word)) :: 8 word)
        = take_bit 8 (uint (drop_bit 8 (word_of_int v :: 16 word)))"
    by (simp add: unsigned_ucast_eq min_def)
  then have hi: "uint (ucast (drop_bit 8 (word_of_int v :: 16 word)) :: 8 word) = (v div 256) mod 256"
    by (simp only: d div_mod_65536 take_bit_eq_mod) simp
  show ?thesis by (simp add: be16_def Let_def lo hi)
qed

lemma decode_bytes:
  assumes "- 32768 \<le> v" "v < 32768"
  shows "decode_be16 [(v div 256) mod 256, v mod 256] = v"
proof -
  have "(v div 256) mod 256 * 256 + v mod 256 = v mod 65536"
    by (simp add: mod_65536_split)
  moreover have "(word_of_int (v mod 65536) :: 16 word) = word_of_int v"
    by (simp add: word_of_int_eq_iff take_bit_eq_mod)
  moreover have "sint (word_of_int v :: 16 word) = v"
    using assms by (simp add: signed_of_int signed_take_bit_int_eq_self)
  ultimately show ?thesis by (simp add: decode_be16_def)
qed

lemma velocity_bytes_PInt: "velocity_bytes (PInt v) = [PInt ((v div 256) mod 256), PInt (v mod 256)]"
  by (simp add: velocity_bytes_def)

lemma velocity_bytes_PFloat: "velocity_bytes (PFloat 0) = [PFloat 0, PFloat 0]"
  by (simp add: velocity_bytes_def)

lemma radius_bytes_form:
  "\<exists>a b. apply_turning_radius x t mn mx = [a, b] \<and> 0 \<le> a \<and> a < 256 \<and> 0 \<le> b \<and> b < 256"
  by (simp add: apply_turning_radius_def Let_def)

lemma drive_roomba_int:
  "drive_roomba (velocity_bytes (PInt v)) (apply_turning_radius x t mn mx) w =
     (None, serial_write (137 # word_of_int ((v div 256) mod 256) # word_of_int (v mod 256)
                            # map word_of_int (apply_turning_radius x t mn mx)) w)"
proof -
  obtain a b where ab: "apply_turning_radius x t mn mx = [a, b]" "0 \<le> a" "a < 256" "0 \<le> b" "b < 256"
    using radius_bytes_form by blast
  show ?thesis
    by (simp add: drive_roomba_def velocity_bytes_PInt DRIVE_def ab)
qed

lemma drive_roomba_float:
  "drive_roomba (velocity_bytes (PFloat 0)) rb w = (Some TypeError, w)"
  by (simp add: drive_roomba_def velocity_bytes_PFloat DRIVE_def)

lemma radius_concrete: "apply_turning_radius (1 / 2) (7 / 100) (- 1700) 1700 = [252, 55]"
  by (simp add: apply_turning_radius_def py_int_def Let_def)

lemma item_effects_velocity:
  "item_effects fwd bwd rt lt now st = (e, vel, st') \<Longrightarrow> vel = PFloat 0 \<or> (\<exists>v. vel = PInt v)"
  by (auto simp: item_effects_def measure_elapsed_def trigger_velocity_def Let_def
           split: if_splits option.splits)

lemma serial_read_trace:
  "serial_read n w = (bs, w') \<Longrightarrow> trace w' = trace w @ [Read n bs] \<and> length bs \<le> n"
  by (auto simp: serial_read_def split: list.splits)

lemma index0_Inr: "index0 bs = Inr b \<Longrightarrow> bs \<noteq> []"
  by (auto simp: index0_def split: list.splits)

lemma tick_no_wobble:
  "tick False s (st, w) =
     (case serial_read 1 (serial_write POLL_BUMPERS_AND_DROPS w) of
        (bs, w2) \<Rightarrow>
          (case index0 bs of
             Inl e \<Rightarrow> (Some e, st, w2)
           | Inr b \<Rightarrow>
               (case item_effects (driving_forward (axis5 s)) (driving_backward (axis5 s) (axis2 s))
                       (axis5 s) (axis2 s) (time_at_effect s)
                       (item_usage (button0 s) (time_at_use s)
                          (item_generation (b AND 12) (random_choice s) st)) of
                  (Some e, velocity, st3) \<Rightarrow> (Some e, st3, w2)
                | (None, velocity, st3) \<Rightarrow>
                    (case drive_roomba (velocity_bytes velocity)
                            (apply_turning_radius (poll_sticks (axis0 s)) THRESHOLD MIN_RADIUS MAX_RADIUS) w2 of
                       (e, w3) \<Rightarrow> (e, st3, w3)))))"
  by (simp add: tick_def Let_def split: prod.splits sum.splits option.splits)

lemma tick_success:
  assumes "tick uw s (st, w) = (None, st', w')"
  shows "\<not> uw \<and> (\<exists>b v. added w w' =
           [Write POLL_BUMPERS_AND_DROPS, Read 1 [b],
            Write (137 # word_of_int ((v div 256) mod 256) # word_of_int (v mod 256)
                   # map word_of_int (apply_turning_radius (poll_sticks (axis0 s))
                                        THRESHOLD MIN_RADIUS MAX_RADIUS))])"
proof -
  have nw: "\<not> uw"
    using assms by (cases uw) (simp_all add: tick_def detect_front_collision_def cc_unbound)
  obtain bs w2 where r: "serial_read 1 (serial_write POLL_BUMPERS_AND_DROPS w) = (bs, w2)"
    by (cases "serial_read 1 (serial_write POLL_BUMPERS_AND_DROPS w)")
  from r have tr: "trace w2 = trace w @ [Write POLL_BUMPERS_AND_DROPS, Read 1 bs]" and len: "length bs \<le> 1"
    using serial_read_trace[OF r] by (simp_all add: serial_write_def)
  from assms nw r obtain b where b: "index0 bs = Inr b"
    by (cases "index0 bs") (simp_all add: tick_no_wobble)
  then obtain b0 where bs: "bs = [b0]"
    using len by (cases bs) (auto simp: index0_def)
  let ?st2 = "item_usage (button0 s) (time_at_use s) (item_generation (b AND 12) (random_choice s) st)"
  obtain e vel st3 where ie: "item_effects (driving_forward (axis5 s)) (driving_backward (axis5 s) (axis2 s))
                       (axis5 s) (axis2 s) (time_at_effect s) ?st2 = (e, vel, st3)"
    by (metis prod_cases3)
  from assms nw r b ie have e: "e = None"
    by (cases e) (simp_all add: tick_no_wobble)
  from item_effects_velocity[OF ie] have "\<exists>v. vel = PInt v"
  proof
    assume "vel = PFloat 0"
    with assms nw r b ie e show ?thesis
      by (simp add: tick_no_wobble drive_roomba_float)
  qed simp
  then obtain v where v: "vel = PInt v" by blast
  from assms nw r b ie e v have "w' = serial_write (137 # word_of_int ((v div 256) mod 256) # word_of_int (v mod 256)
                   # map word_of_int (apply_turning_radius (poll_sticks (axis0 s))
                                        THRESHOLD MIN_RADIUS MAX_RADIUS)) w2"
    by (simp add: tick_no_wobble drive_roomba_int)
  then have "added w w' = [Write POLL_BUMPERS_AND_DROPS, Read 1 [b0],
            Write (137 # word_of_int ((v div 256) mod 256) # word_of_int (v mod 256)
                   # map word_of_int (apply_turning_radius (poll_sticks (axis0 s))
                                        THRESHOLD MIN_RADIUS MAX_RADIUS))]"
    by (simp add: added_def serial_write_def tr bs)
  with nw show ?thesis by blast
qed

lemma radius_bytes_be16:
  "apply_turning_radius stick t mn mx =
     (if stick = 0 then [128, 0]
      else be16 (if stick > 0 then py_int (of_int mn * (1 - stick + t))
                 else py_int (of_int mx * (1 + stick + t))))"
  by (simp add: apply_turning_radius_def Let_def be16_bytes)

text \<open>Two ticks that run to the end: trigger fully pulled, stick pushed right and stick at rest.\<close>

lemma tick_example:
  "tick False \<lparr>axis0 = 1 / 2, axis5 = 1, axis2 = - 1, button0 = False, random_choice = Star,
           time_at_use = 10, time_at_effect = 10\<rparr> (initial_items, \<lparr>replies = [[0]], trace = []\<rparr>)
   = (None, initial_items, \<lparr>replies = [], trace = [Write [142, 7], Read 1 [0], Write [137, 1, 44, 252, 55]]\<rparr>)"
  by (simp add: tick_no_wobble serial_read_def serial_write_def index0_def POLL_BUMPERS_AND_DROPS_def
        item_generation_def item_usage_def item_effects_def initial_items_def trigger_velocity_def
        driving_forward_def driving_backward_def THRESHOLD_def MAX_VELOCITY_NO_ITEMS_def
        apply_forward_velocity_def py_int_def poll_sticks_def MIN_RADIUS_def MAX_RADIUS_def
        radius_concrete drive_roomba_def velocity_bytes_def DRIVE_def)

lemma tick_centred_example:
  "tick False \<lparr>axis0 = 1 / 100, axis5 = 1, axis2 = - 1, button0 = False, random_choice = Star,
           time_at_use = 10, time_at_effect = 10\<rparr> (initial_items, \<lparr>replies = [[0]], trace = []\<rparr>)
   = (None, initial_items, \<lparr>replies = [], trace = [Write [142, 7], Read 1 [0], Write [137, 1, 44, 128, 0]]\<rparr>)"
  by (simp add: tick_no_wobble serial_read_def serial_write_def index0_def POLL_BUMPERS_AND_DROPS_def
        item_generation_def item_usage_def item_effects_def initial_items_def trigger_velocity_def
        driving_forward_def driving_backward_def THRESHOLD_def MAX_VELOCITY_NO_ITEMS_def
        apply_forward_velocity_def py_int_def poll_sticks_def MIN_RADIUS_def MAX_RADIUS_def
        apply_turning_radius_def drive_roomba_def velocity_bytes_def DRIVE_def)

text \<open>
  C6. For every value in the signed 16-bit range, the byte pair that the script
  computes, \<open>[(v // 256) % 256, v % 256]\<close>, is the big-endian two's-complement 16-bit
  encoding of the value, and decoding the pair gives the value back; the radius bytes
  are computed the same way (unless the stick is at rest); the packet handed to the
  device is the opcode 137 (0x89), the two velocity bytes, then the two radius bytes,
  and that packet is the last thing a tick that runs to its end writes; in the concrete
  scenario (stick 0.5, threshold 0.07, minimum radius -1700) the radius is -969,
  encoded as 0xFC 0x37.
\<close>

theorem drive_encoding:
  assumes "- 32768 \<le> v" and "v < 32768"
    and "tick using_wobble s (st, w) = (None, st', w')"
  shows "velocity_bytes (PInt v) = map PInt (be16 v)
     \<and> decode_be16 (be16 v) = v
     \<and> apply_turning_radius stick t mn mx =
         (if stick = 0 then [128, 0]
          else be16 (if stick > 0 then py_int (of_int mn * (1 - stick + t))
                     else py_int (of_int mx * (1 + stick + t))))
     \<and> drive_roomba (velocity_bytes (PInt v)) (apply_turning_radius stick t mn mx) w0 =
         (None, serial_write (137 # map word_of_int (be16 v)
                                @ map word_of_int (apply_turning_radius stick t mn mx)) w0)
     \<and> (\<exists>b vel. added w w' =
           [Write POLL_BUMPERS_AND_DROPS, Read 1 [b],
            Write (137 # map word_of_int (be16 vel)
                     @ map word_of_int (apply_turning_radius (poll_sticks (axis0 s))
                                           THRESHOLD MIN_RADIUS MAX_RADIUS))])
     \<and> apply_turning_radius (1 / 2) (7 / 100) (- 1700) 1700 = be16 (- 969)
     \<and> be16 (- 969) = [252, 55]"
proof -
  have 1: "velocity_bytes (PInt v) = map PInt (be16 v)"
    by (simp add: be16_bytes velocity_bytes_PInt)
  have 2: "decode_be16 (be16 v) = v"
    using assms(1,2) by (simp add: be16_bytes decode_bytes)
  have 4: "drive_roomba (velocity_bytes (PInt v)) (apply_turning_radius stick t mn mx) w0 =
         (None, serial_write (137 # map word_of_int (be16 v)
                                @ map word_of_int (apply_turning_radius stick t mn mx)) w0)"
    using drive_roomba_int[of v stick t mn mx w0] by (simp add: be16_bytes)
  have 5: "\<exists>b vel. added w w' =
           [Write POLL_BUMPERS_AND_DROPS, Read 1 [b],
            Write (137 # map word_of_int (be16 vel)
                     @ map word_of_int (apply_turning_radius (poll_sticks (axis0 s))
                                           THRESHOLD MIN_RADIUS MAX_RADIUS))]"
    using tick_success[OF assms(3)] by (simp add: be16_bytes)
  have 7: "be16 (- 969) = [252, 55]"
    by (simp add: be16_bytes)
  have 6: "apply_turning_radius (1 / 2) (7 / 100) (- 1700) 1700 = be16 (- 969)"
    by (simp only: 7 radius_concrete)
  from 1 2 radius_bytes_be16 4 5 6 7 show ?thesis by blast
qed

theorem drive_encoding_witness:
  "- 32768 \<le> (- 969 :: int) \<and> (- 969 :: int) < 32768
   \<and> tick False \<lparr>axis0 = 1 / 2, axis5 = 1, axis2 = - 1, button0 = False, random_choice = Star,
           time_at_use = 10, time_at_effect = 10\<rparr> (initial_items, \<lparr>replies = [[0]], trace = []\<rparr>)
       = (None, initial_items,
          \<lparr>replies = [], trace = [Write [142, 7], Read 1 [0], Write [137, 1, 44, 252, 55]]\<rparr>)
   \<and> velocity_bytes (PInt (- 969)) = map PInt (be16 (- 969))
   \<and> decode_be16 (be16 (- 969)) = - 969
   \<and> be16 (- 969) = [252, 55]"
proof -
  have h1: "- 32768 \<le> (- 969 :: int)" and h2: "(- 969 :: int) < 32768" by simp_all
  note t = tick_example
  from drive_encoding[OF h1 h2 t] h1 h2 t show ?thesis by blast
qed

subsection \<open>The deadzone\<close>

text \<open>
  C10. A steering value whose magnitude is strictly below the threshold is replaced
  by zero, and the radius bytes are then the straight-ahead pair 0x80 0x00; the
  general formula at zero would give 1819, that is 0x07 0x1B, instead. A tick that
  runs to its end with such a steering value sends a drive packet ending in 0x80 0x00.
\<close>

theorem deadzone_sentinel:
  assumes "\<bar>x\<bar> < THRESHOLD"
  shows "poll_sticks x = 0
     \<and> apply_turning_radius (poll_sticks x) THRESHOLD MIN_RADIUS MAX_RADIUS = [128, 0]
     \<and> be16 (py_int (of_int MAX_RADIUS * (1 + 0 + THRESHOLD))) = [7, 27]
     \<and> (axis0 s = x \<and> tick using_wobble s (st, w) = (None, st', w') \<longrightarrow>
          (\<exists>b vh vl. added w w' =
             [Write POLL_BUMPERS_AND_DROPS, Read 1 [b], Write [137, vh, vl, 128, 0]]))"
proof -
  have 1: "poll_sticks x = 0"
    using assms by (simp add: poll_sticks_def)
  have 2: "apply_turning_radius (poll_sticks x) THRESHOLD MIN_RADIUS MAX_RADIUS = [128, 0]"
    by (simp add: 1 apply_turning_radius_def)
  have 3: "be16 (py_int (of_int MAX_RADIUS * (1 + 0 + THRESHOLD))) = [7, 27]"
    by (simp add: be16_bytes py_int_def MAX_RADIUS_def THRESHOLD_def)
  have 4: "\<exists>b vh vl. added w w' =
             [Write POLL_BUMPERS_AND_DROPS, Read 1 [b], Write [137, vh, vl, 128, 0]]"
    if "axis0 s = x" and "tick using_wobble s (st, w) = (None, st', w')"
    using tick_success[OF that(2)] by (auto simp: that(1) 2)
  from 1 2 3 4 show ?thesis by blast
qed

theorem deadzone_sentinel_witness:
  "\<bar>1 / 100\<bar> < THRESHOLD
   \<and> apply_turning_radius (poll_sticks (1 / 100)) THRESHOLD MIN_RADIUS MAX_RADIUS = [128, 0]
   \<and> tick False \<lparr>axis0 = 1 / 100, axis5 = 1, axis2 = - 1, button0 = False, random_choice = Star,
           time_at_use = 10, time_at_effect = 10\<rparr> (initial_items, \<lparr>replies = [[0]], trace = []\<rparr>)
       = (None, initial_items,
          \<lparr>replies = [], trace = [Write [142, 7], Read 1 [0], Write [137, 1, 44, 128, 0]]\<rparr>)
   \<and> (\<exists>b vh vl. added \<lparr>replies = [[0]], trace = []\<rparr>
                    \<lparr>replies = [], trace = [Write [142, 7], Read 1 [0], Write [137, 1, 44, 128, 0]]\<rparr> =
             [Write POLL_BUMPERS_AND_DROPS, Read 1 [b], Write [137, vh, vl, 128, 0]])"
proof -
  have h: "\<bar>1 / 100\<bar> < THRESHOLD" by (simp add: THRESHOLD_def)
  note t = tick_centred_example
  have ax: "axis0 \<lparr>axis0 = 1 / 100, axis5 = 1, axis2 = - 1, button0 = False,
           random_choice = Star, time_at_use = 10, time_at_effect = 10\<rparr> = 1 / 100" by simp
  from deadzone_sentinel[OF h, of "\<lparr>axis0 = 1 / 100, axis5 = 1, axis2 = - 1, button0 = False,
           random_choice = Star, time_at_use = 10, time_at_effect = 10\<rparr>" False initial_items
           "\<lparr>replies = [[0]], trace = []\<rparr>" initial_items
           "\<lparr>replies = [], trace = [Write [142, 7], Read 1 [0], Write [137, 1, 44, 128, 0]]\<rparr>"] h t ax
  show ?thesis by blast
qed

subsection \<open>The turning radius\<close>

lemma magnitude_bounds:
  assumes "7 / 100 \<le> (a::rat)" and "a \<le> 1"
  shows "119 \<le> \<lfloor>1700 * (107 / 100 - a)\<rfloor>" and "\<lfloor>1700 * (107 / 100 - a)\<rfloor> \<le> 1700"
proof -
  have "(119::rat) \<le> 1700 * (107 / 100 - a)" using assms by simp
  then show "119 \<le> \<lfloor>1700 * (107 / 100 - a)\<rfloor>" by (simp add: le_floor_iff)
  have "1700 * (107 / 100 - a) \<le> (1700::rat)" using assms by simp
  then have "\<lfloor>1700 * (107 / 100 - a)\<rfloor> \<le> \<lfloor>1700::rat\<rfloor>" by (rule floor_mono)
  then show "\<lfloor>1700 * (107 / 100 - a)\<rfloor> \<le> 1700" by simp
qed

lemma magnitude_mono:
  "(a::rat) \<le> b \<Longrightarrow> \<lfloor>1700 * (107 / 100 - b)\<rfloor> \<le> \<lfloor>1700 * (107 / 100 - a)\<rfloor>"
  by (rule floor_mono) simp

lemma decoded_radius_eq:
  assumes "THRESHOLD \<le> \<bar>x\<bar>" and "\<bar>x\<bar> \<le> 1"
  shows "decoded_radius x =
           (if 0 < x then - \<lfloor>1700 * (107 / 100 - \<bar>x\<bar>)\<rfloor> else \<lfloor>1700 * (107 / 100 - \<bar>x\<bar>)\<rfloor>)"
proof -
  define m where "m = \<lfloor>1700 * (107 / 100 - \<bar>x\<bar>)\<rfloor>"
  have a: "7 / 100 \<le> \<bar>x\<bar>" using assms(1) by (simp add: THRESHOLD_def)
  have b: "119 \<le> m" "m \<le> 1700"
    using magnitude_bounds[OF a assms(2)] by (simp_all add: m_def)
  have dm: "decode_be16 [(m div 256) mod 256, m mod 256] = m"
    using b by (intro decode_bytes) linarith+
  have dn: "decode_be16 [(- m div 256) mod 256, - m mod 256] = - m"
    using b by (intro decode_bytes) linarith+
  show ?thesis
  proof (cases "0 < x")
    case True
    then have ax: "\<bar>x\<bar> = x" by simp
    have neg: "\<not> 0 \<le> - 1700 * (1 - x + 7 / 100)" using True assms(2) by simp
    have "py_int (of_int MIN_RADIUS * (1 - x + THRESHOLD)) = \<lceil>- (1700 * (107 / 100 - x))\<rceil>"
      using neg by (simp add: py_int_def MIN_RADIUS_def THRESHOLD_def algebra_simps)
    also have "\<dots> = - m" by (simp add: ceiling_def m_def ax)
    finally have r: "py_int (of_int MIN_RADIUS * (1 - x + THRESHOLD)) = - m" .
    have "decoded_radius x = decode_be16 [(- m div 256) mod 256, - m mod 256]"
      using True by (simp add: decoded_radius_def apply_turning_radius_def Let_def r)
    then show ?thesis using True dn by (simp add: m_def)
  next
    case False
    with a have xn: "x < 0" and ax: "\<bar>x\<bar> = - x" by auto
    have pos: "0 \<le> 1700 * (1 + x + 7 / 100)" using assms(2) ax by simp
    have "py_int (of_int MAX_RADIUS * (1 + x + THRESHOLD)) = \<lfloor>1700 * (107 / 100 + x)\<rfloor>"
      using pos by (simp add: py_int_def MAX_RADIUS_def THRESHOLD_def algebra_simps)
    then have r: "py_int (of_int MAX_RADIUS * (1 + x + THRESHOLD)) = m"
      by (simp add: m_def ax)
    have "decoded_radius x = decode_be16 [(m div 256) mod 256, m mod 256]"
      using xn by (simp add: decoded_radius_def apply_turning_radius_def Let_def r)
    then show ?thesis using False dm by (simp add: m_def)
  qed
qed

text \<open>
  C5, as stated, fails: with the stick pushed half way to the right (steer 0.5, which
  is positive and at least the threshold) the radius bytes are 0xFC 0x37, which decode
  to -969, a negative radius.
\<close>

theorem radius_sign_counterexample:
  "THRESHOLD \<le> \<bar>1 / 2\<bar> \<and> sgn (1 / 2 :: pyfloat) = 1
   \<and> apply_turning_radius (1 / 2) THRESHOLD MIN_RADIUS MAX_RADIUS = [252, 55]
   \<and> decoded_radius (1 / 2) = - 969
   \<and> sgn (decoded_radius (1 / 2)) = - 1"
proof -
  have r: "apply_turning_radius (1 / 2) THRESHOLD MIN_RADIUS MAX_RADIUS = [252, 55]"
    unfolding THRESHOLD_def MIN_RADIUS_def MAX_RADIUS_def by (rule radius_concrete)
  have "decode_be16 [(- 969 div 256) mod 256, - 969 mod 256] = - 969"
    by (rule decode_bytes) simp_all
  then have d: "decoded_radius (1 / 2) = - 969"
    by (simp add: decoded_radius_def r)
  have t: "THRESHOLD \<le> \<bar>1 / 2\<bar>" by (simp add: THRESHOLD_def)
  have g: "sgn (1 / 2 :: pyfloat) = 1" by simp
  have n: "sgn (decoded_radius (1 / 2)) = - 1" by (simp add: d)
  from t g r d n show ?thesis by blast
qed

text \<open>
  C5, amended. For every steering value with magnitude between the threshold and 1
  (the range of the axis), the radius byte pair decodes to a value whose sign is
  opposite to the sign of the steering value (stick right gives a negative radius,
  stick left a positive one), and whose magnitude is monotonic in \<open>|steer|\<close>: it does
  not grow as \<open>|steer|\<close> grows.
\<close>

theorem radius_opposite_sign_monotone:
  assumes "THRESHOLD \<le> \<bar>x\<bar>" and "\<bar>x\<bar> \<le> 1"
  shows "(0 < x \<longrightarrow> decoded_radius x < 0)
     \<and> (x < 0 \<longrightarrow> 0 < decoded_radius x)
     \<and> (THRESHOLD \<le> \<bar>y\<bar> \<and> \<bar>y\<bar> \<le> 1 \<and> \<bar>x\<bar> \<le> \<bar>y\<bar> \<longrightarrow>
          \<bar>decoded_radius y\<bar> \<le> \<bar>decoded_radius x\<bar>)"
proof -
  define m where "m = \<lfloor>1700 * (107 / 100 - \<bar>x\<bar>)\<rfloor>"
  have a: "7 / 100 \<le> \<bar>x\<bar>" using assms(1) by (simp add: THRESHOLD_def)
  have b: "119 \<le> m" "m \<le> 1700"
    using magnitude_bounds[OF a assms(2)] unfolding m_def by blast+
  have e: "decoded_radius x = (if 0 < x then - m else m)"
    using decoded_radius_eq[OF assms] unfolding m_def .
  have s1: "0 < x \<longrightarrow> decoded_radius x < 0" using e b by simp
  have s2: "x < 0 \<longrightarrow> 0 < decoded_radius x" using e b by simp
  have mx: "\<bar>decoded_radius x\<bar> = m" using e b by (simp split: if_splits)
  have mono: "\<bar>decoded_radius y\<bar> \<le> \<bar>decoded_radius x\<bar>"
    if y: "THRESHOLD \<le> \<bar>y\<bar>" "\<bar>y\<bar> \<le> 1" "\<bar>x\<bar> \<le> \<bar>y\<bar>"
  proof -
    define n where "n = \<lfloor>1700 * (107 / 100 - \<bar>y\<bar>)\<rfloor>"
    have ay: "7 / 100 \<le> \<bar>y\<bar>" using y(1) by (simp add: THRESHOLD_def)
    have bn: "119 \<le> n" "n \<le> 1700"
      using magnitude_bounds[OF ay y(2)] unfolding n_def by blast+
    have "decoded_radius y = (if 0 < y then - n else n)"
      using decoded_radius_eq[OF y(1,2)] unfolding n_def .
    then have my: "\<bar>decoded_radius y\<bar> = n" using bn by (simp split: if_splits)
    have "n \<le> m" using magnitude_mono[OF y(3)] unfolding n_def m_def .
    then show ?thesis by (simp only: my mx)
  qed
  from s1 s2 mono show ?thesis by blast
qed

theorem radius_opposite_sign_monotone_witness:
  "THRESHOLD \<le> \<bar>1 / 2\<bar> \<and> \<bar>1 / 2 :: pyfloat\<bar> \<le> 1
   \<and> THRESHOLD \<le> \<bar>- 1 :: pyfloat\<bar> \<and> \<bar>- 1 :: pyfloat\<bar> \<le> 1
   \<and> \<bar>1 / 2 :: pyfloat\<bar> \<le> \<bar>- 1\<bar>
   \<and> (0 :: pyfloat) < 1 / 2 \<and> (- 1 :: pyfloat) < 0
   \<and> decoded_radius (1 / 2) < 0
   \<and> 0 < decoded_radius (- 1)
   \<and> \<bar>decoded_radius (- 1)\<bar> \<le> \<bar>decoded_radius (1 / 2)\<bar>"
proof -
  have h1: "THRESHOLD \<le> \<bar>1 / 2\<bar>" and h2: "\<bar>1 / 2 :: pyfloat\<bar> \<le> 1"
    and h3: "THRESHOLD \<le> \<bar>- 1 :: pyfloat\<bar>" and h4: "\<bar>- 1 :: pyfloat\<bar> \<le> 1"
    and h5: "\<bar>1 / 2 :: pyfloat\<bar> \<le> \<bar>- 1\<bar>"
    by (simp_all add: THRESHOLD_def)
  have p: "(0::pyfloat) < 1 / 2" and n: "(- 1 :: pyfloat) < 0" by simp_all
  note T = radius_opposite_sign_monotone[OF h1 h2, of "- 1"]
  note U = radius_opposite_sign_monotone[OF h3 h4, of "- 1"]
  from T p have c1: "decoded_radius (1 / 2) < 0" by blast
  from U n have c2: "0 < decoded_radius (- 1)" by blast
  from T h3 h4 h5 have c3: "\<bar>decoded_radius (- 1)\<bar> \<le> \<bar>decoded_radius (1 / 2)\<bar>" by blast
  from h1 h2 h3 h4 h5 p n c1 c2 c3 show ?thesis by blast
qed

subsection \<open>The sensor poll\<close>

lemma bytearray_length: "bytearray xs = Inr bs \<Longrightarrow> length bs = length xs"
proof (induction xs arbitrary: bs rule: bytearray.induct)
  case 1
  then show ?case by simp
next
  case (2 x xs)
  then show ?case by simp
next
  case (3 i xs)
  then show ?case by (auto split: if_splits sum.splits)
qed

lemma drive_roomba_world:
  assumes "drive_roomba vb rb w = (e, w')"
  shows "w' = w \<or> (\<exists>pkt. w' = serial_write pkt w \<and> length pkt = length vb + length rb + 1
                  \<and> hd pkt = 137)"
proof (cases "bytearray (map PInt DRIVE @ vb @ map PInt rb)")
  case (Inl a)
  with assms show ?thesis by (simp add: drive_roomba_def)
next
  case (Inr pkt)
  from bytearray_length[OF Inr] have l: "length pkt = length vb + length rb + 1"
    by (simp add: DRIVE_def)
  from Inr have h: "hd pkt = 137"
    by (auto simp: DRIVE_def split: sum.splits)
  from assms Inr have "w' = serial_write pkt w" by (simp add: drive_roomba_def)
  with l h show ?thesis by blast
qed

lemma tick_no_wobble_world:
  assumes "tick False s (st, w) = (e, st', w')"
  shows "\<exists>bs w2. serial_read 1 (serial_write POLL_BUMPERS_AND_DROPS w) = (bs, w2)
           \<and> (w' = w2 \<or> (\<exists>pkt. w' = serial_write pkt w2 \<and> length pkt = 5 \<and> hd pkt = 137))"
proof -
  obtain bs w2 where r: "serial_read 1 (serial_write POLL_BUMPERS_AND_DROPS w) = (bs, w2)"
    by (cases "serial_read 1 (serial_write POLL_BUMPERS_AND_DROPS w)")
  have vb: "length (velocity_bytes v) = 2" for v by (simp add: velocity_bytes_def)
  have rb: "length (apply_turning_radius x t mn mx) = 2" for x t mn mx
    by (simp add: apply_turning_radius_def Let_def)
  have "w' = w2 \<or> (\<exists>pkt. w' = serial_write pkt w2 \<and> length pkt = 5 \<and> hd pkt = 137)"
    using assms r
    by (auto simp: tick_no_wobble vb rb split: sum.splits prod.splits option.splits
             dest!: drive_roomba_world)
  with r show ?thesis by blast
qed

text \<open>
  C7, as stated, fails: a tick with wobble enabled performs no poll-and-read round
  trip at all. It ends in the collision check before anything is written or read.
\<close>

theorem one_round_trip_counterexample:
  "tick True \<lparr>axis0 = 1 / 2, axis5 = 1, axis2 = - 1, button0 = False, random_choice = Star,
           time_at_use = 10, time_at_effect = 10\<rparr> (initial_items, \<lparr>replies = [[0]], trace = []\<rparr>)
     = (Some (NameError ''cc''), initial_items, \<lparr>replies = [[0]], trace = []\<rparr>)
   \<and> writes_of (added \<lparr>replies = [[0]], trace = []\<rparr> \<lparr>replies = [[0]], trace = []\<rparr>) = []
   \<and> reads_of (added \<lparr>replies = [[0]], trace = []\<rparr> \<lparr>replies = [[0]], trace = []\<rparr>) = []"
  by (simp add: tick_def detect_front_collision_def cc_unbound added_def)

text \<open>
  C7, amended. With wobble disabled, every tick performs exactly one sensor
  poll-and-read round trip: whatever the tick's outcome, what it adds to the trace
  starts with one write of the poll command followed by one read of one byte (which
  returns at most one byte), and the only thing that can follow is the five-byte
  drive packet.
\<close>

theorem one_round_trip_without_wobble:
  assumes "tick False s (st, w) = (e, st', w')"
  shows "\<exists>bs rest. added w w' = Write POLL_BUMPERS_AND_DROPS # Read 1 bs # rest
           \<and> length bs \<le> 1
           \<and> (rest = [] \<or> (\<exists>pkt. rest = [Write pkt] \<and> length pkt = 5 \<and> hd pkt = 137))
           \<and> writes_of (added w w') = POLL_BUMPERS_AND_DROPS # writes_of rest
           \<and> reads_of (added w w') = [(1, bs)]"
proof -
  from tick_no_wobble_world[OF assms] obtain bs w2
    where r: "serial_read 1 (serial_write POLL_BUMPERS_AND_DROPS w) = (bs, w2)"
      and w': "w' = w2 \<or> (\<exists>pkt. w' = serial_write pkt w2 \<and> length pkt = 5 \<and> hd pkt = 137)"
    by blast
  from serial_read_trace[OF r]
  have tr: "trace w2 = trace w @ [Write POLL_BUMPERS_AND_DROPS, Read 1 bs]" and len: "length bs \<le> 1"
    by (simp_all add: serial_write_def)
  from w' show ?thesis
  proof
    assume "w' = w2"
    then have "added w w' = Write POLL_BUMPERS_AND_DROPS # Read 1 bs # []"
      by (simp add: added_def tr)
    with len show ?thesis by simp
  next
    assume "\<exists>pkt. w' = serial_write pkt w2 \<and> length pkt = 5 \<and> hd pkt = 137"
    then obtain pkt where p: "w' = serial_write pkt w2" "length pkt = 5" "hd pkt = 137" by blast
    then have "added w w' = Write POLL_BUMPERS_AND_DROPS # Read 1 bs # [Write pkt]"
      by (simp add: added_def tr serial_write_def)
    with len p show ?thesis by simp
  qed
qed

theorem one_round_trip_without_wobble_witness:
  "tick False \<lparr>axis0 = 1 / 2, axis5 = 1, axis2 = - 1, button0 = False, random_choice = Star,
           time_at_use = 10, time_at_effect = 10\<rparr> (initial_items, \<lparr>replies = [[0]], trace = []\<rparr>)
     = (None, initial_items,
        \<lparr>replies = [], trace = [Write [142, 7], Read 1 [0], Write [137, 1, 44, 252, 55]]\<rparr>)
   \<and> (\<exists>bs rest.
         added \<lparr>replies = [[0]], trace = []\<rparr>
           \<lparr>replies = [], trace = [Write [142, 7], Read 1 [0], Write [137, 1, 44, 252, 55]]\<rparr>
           = Write POLL_BUMPERS_AND_DROPS # Read 1 bs # rest
         \<and> length bs \<le> 1
         \<and> reads_of (added \<lparr>replies = [[0]], trace = []\<rparr>
           \<lparr>replies = [], trace = [Write [142, 7], Read 1 [0], Write [137, 1, 44, 252, 55]]\<rparr>)
             = [(1, bs)])"
  using one_round_trip_without_wobble[OF tick_example] tick_example by blast

subsection \<open>A read that returns no data\<close>

lemma tick_empty_read:
  assumes "fst (serial_read 1 (serial_write POLL_BUMPERS_AND_DROPS w)) = []"
  shows "tick False s (st, w) =
           (Some IndexError, st, snd (serial_read 1 (serial_write POLL_BUMPERS_AND_DROPS w)))"
  using assms by (cases "serial_read 1 (serial_write POLL_BUMPERS_AND_DROPS w)")
                 (simp add: tick_no_wobble index0_def)

text \<open>
  C9, as stated, fails: when the first tick's read returns no data, the failure does
  pass the tick boundary. The run of two ticks ends with IndexError after the first
  poll; the second tick's poll is never written and the device's next reply is never
  read.
\<close>

theorem empty_read_counterexample:
  "main_loop False
     [\<lparr>axis0 = 0, axis5 = 1, axis2 = - 1, button0 = False, random_choice = Star,
           time_at_use = 10, time_at_effect = 10\<rparr>,
      \<lparr>axis0 = 0, axis5 = 1, axis2 = - 1, button0 = False, random_choice = Star,
           time_at_use = 11, time_at_effect = 11\<rparr>]
     (initial_items, \<lparr>replies = [[], [0]], trace = []\<rparr>)
   = (Some IndexError, initial_items,
      \<lparr>replies = [[0]], trace = [Write [142, 7], Read 1 []]\<rparr>)"
proof -
  have "fst (serial_read 1 (serial_write POLL_BUMPERS_AND_DROPS \<lparr>replies = [[], [0]], trace = []\<rparr>)) = []"
    by (simp add: serial_read_def serial_write_def)
  from tick_empty_read[OF this] show ?thesis
    by (simp add: serial_read_def serial_write_def POLL_BUMPERS_AND_DROPS_def)
qed

text \<open>
  C9, amended. With wobble disabled, if the sensor read returns no data, the tick
  raises IndexError at the indexing: the item variables are unchanged, the tick has
  added only the poll write and the empty read to the trace (no drive command), and
  since nothing catches the exception it ends the loop, whatever ticks were to follow.
\<close>

theorem empty_read_ends_run:
  assumes "fst (serial_read 1 (serial_write POLL_BUMPERS_AND_DROPS w)) = []"
  shows "tick False s (st, w) =
           (Some IndexError, st, snd (serial_read 1 (serial_write POLL_BUMPERS_AND_DROPS w)))
     \<and> added w (snd (serial_read 1 (serial_write POLL_BUMPERS_AND_DROPS w))) =
         [Write POLL_BUMPERS_AND_DROPS, Read 1 []]
     \<and> main_loop False (s # ss) (st, w) =
         (Some IndexError, st, snd (serial_read 1 (serial_write POLL_BUMPERS_AND_DROPS w)))"
proof -
  note t = tick_empty_read[OF assms, of s st]
  obtain bs w2 where r: "serial_read 1 (serial_write POLL_BUMPERS_AND_DROPS w) = (bs, w2)"
    by (cases "serial_read 1 (serial_write POLL_BUMPERS_AND_DROPS w)")
  with assms have bs: "bs = []" by simp
  from serial_read_trace[OF r] have tr: "trace w2 = trace w @ [Write POLL_BUMPERS_AND_DROPS, Read 1 []]"
    by (simp add: serial_write_def bs)
  have sw: "snd (serial_read 1 (serial_write POLL_BUMPERS_AND_DROPS w)) = w2"
    by (simp only: r snd_conv)
  have a: "added w (snd (serial_read 1 (serial_write POLL_BUMPERS_AND_DROPS w))) =
         [Write POLL_BUMPERS_AND_DROPS, Read 1 []]"
    unfolding sw added_def using tr by simp
  have m: "main_loop False (s # ss) (st, w) =
         (Some IndexError, st, snd (serial_read 1 (serial_write POLL_BUMPERS_AND_DROPS w)))"
    by (simp add: t)
  from t a m show ?thesis by blast
qed

theorem empty_read_ends_run_witness:
  "fst (serial_read 1 (serial_write POLL_BUMPERS_AND_DROPS \<lparr>replies = [[], [0]], trace = []\<rparr>)) = []
   \<and> main_loop False
       [\<lparr>axis0 = 0, axis5 = 1, axis2 = - 1, button0 = False, random_choice = Star,
           time_at_use = 10, time_at_effect = 10\<rparr>,
        \<lparr>axis0 = 0, axis5 = 1, axis2 = - 1, button0 = False, random_choice = Star,
           time_at_use = 11, time_at_effect = 11\<rparr>]
       (initial_items, \<lparr>replies = [[], [0]], trace = []\<rparr>)
     = (Some IndexError, initial_items,
        snd (serial_read 1 (serial_write POLL_BUMPERS_AND_DROPS \<lparr>replies = [[], [0]], trace = []\<rparr>)))"
proof -
  have h: "fst (serial_read 1 (serial_write POLL_BUMPERS_AND_DROPS \<lparr>replies = [[], [0]], trace = []\<rparr>)) = []"
    by (simp add: serial_read_def serial_write_def)
  from empty_read_ends_run[OF h] h show ?thesis by blast
qed

subsection \<open>Item acquisition\<close>

lemma item_generation_holding:
  "has_mushroom st \<or> has_star st \<Longrightarrow> item_generation wd g st = st"
  by (auto simp: item_generation_def)

lemma wheel_drops_holding:
  "has_mushroom st \<or> has_star st \<Longrightarrow> fold (\<lambda>(wd, g). item_generation wd g) evs st = st"
  by (induction evs) (auto simp: item_generation_holding)

text \<open>
  C2, as stated, fails: while a mushroom's effect is active and nothing is held, a
  wheel drop is not a no-op. The generation stage sets \<open>has_star\<close>, and so does a whole
  tick run in that state (the mushroom still boosting, the button not pressed).
\<close>

theorem wheel_drop_while_active_counterexample:
  "item_generation 4 Star
     \<lparr>has_mushroom = False, has_star = False, used_mushroom = True, used_star = False,
      elapsed_time = 1 / 2, time_item_used = Some 10\<rparr>
   = \<lparr>has_mushroom = False, has_star = True, used_mushroom = True, used_star = False,
      elapsed_time = 1 / 2, time_item_used = Some 10\<rparr>
   \<and> tick False \<lparr>axis0 = 0, axis5 = - 1, axis2 = - 1, button0 = False, random_choice = Star,
           time_at_use = 11, time_at_effect = 11\<rparr>
        (\<lparr>has_mushroom = False, has_star = False, used_mushroom = True, used_star = False,
          elapsed_time = 1 / 2, time_item_used = Some 10\<rparr>, \<lparr>replies = [[4]], trace = []\<rparr>)
     = (None,
        \<lparr>has_mushroom = False, has_star = True, used_mushroom = True, used_star = False,
          elapsed_time = 1, time_item_used = Some 10\<rparr>,
        \<lparr>replies = [], trace = [Write [142, 7], Read 1 [4], Write [137, 1, 244, 128, 0]]\<rparr>)"
  by (simp add: tick_no_wobble serial_read_def serial_write_def index0_def POLL_BUMPERS_AND_DROPS_def
        item_generation_def item_usage_def item_effects_def measure_elapsed_def
        MUSHROOM_DURATION_def MAX_VELOCITY_W_SHROOM_def
        driving_forward_def driving_backward_def THRESHOLD_def
        poll_sticks_def MIN_RADIUS_def MAX_RADIUS_def
        apply_turning_radius_def drive_roomba_def velocity_bytes_def DRIVE_def)

text \<open>
  C2, amended. A wheel-drop event changes the held item only when no item is held.
  If the player already holds an item, the wheel drop leaves the item variables as
  they are, and so does any sequence of wheel drops, whatever item is drawn each
  time. Without a wheel drop nothing changes. With nothing held, a wheel drop gives
  the drawn item whether or not an item's effect is active. Acquisition never changes
  which effect is active.
\<close>

theorem wheel_drop_acquisition:
  "(has_mushroom st \<or> has_star st \<longrightarrow>
      item_generation wheel_dropped generated_item st = st
      \<and> fold (\<lambda>(wd, g). item_generation wd g) events st = st)
   \<and> (wheel_dropped = 0 \<longrightarrow> item_generation wheel_dropped generated_item st = st)
   \<and> (\<not> has_mushroom st \<and> \<not> has_star st \<and> wheel_dropped \<noteq> 0 \<longrightarrow>
        item_generation wheel_dropped generated_item st =
          (if generated_item = Mushroom then st\<lparr>has_mushroom := True\<rparr> else st\<lparr>has_star := True\<rparr>))
   \<and> used_mushroom (item_generation wheel_dropped generated_item st) = used_mushroom st
   \<and> used_star (item_generation wheel_dropped generated_item st) = used_star st"
proof -
  have 1: "item_generation wheel_dropped generated_item st = st
      \<and> fold (\<lambda>(wd, g). item_generation wd g) events st = st"
    if "has_mushroom st \<or> has_star st"
    using that by (simp add: item_generation_holding wheel_drops_holding)
  have 2: "item_generation wheel_dropped generated_item st = st" if "wheel_dropped = 0"
    using that by (simp add: item_generation_def)
  have 3: "item_generation wheel_dropped generated_item st =
          (if generated_item = Mushroom then st\<lparr>has_mushroom := True\<rparr> else st\<lparr>has_star := True\<rparr>)"
    if "\<not> has_mushroom st \<and> \<not> has_star st \<and> wheel_dropped \<noteq> 0"
    using that by (cases generated_item) (simp_all add: item_generation_def)
  have 4: "used_mushroom (item_generation wheel_dropped generated_item st) = used_mushroom st"
    and 5: "used_star (item_generation wheel_dropped generated_item st) = used_star st"
    by (simp_all add: item_generation_def Let_def)
  from 1 2 3 4 5 show ?thesis by blast
qed

theorem wheel_drop_acquisition_witness:
  "has_star \<lparr>has_mushroom = False, has_star = True, used_mushroom = False, used_star = False,
      elapsed_time = 0, time_item_used = None\<rparr>
   \<and> item_generation 4 Mushroom
       \<lparr>has_mushroom = False, has_star = True, used_mushroom = False, used_star = False,
        elapsed_time = 0, time_item_used = None\<rparr>
     = \<lparr>has_mushroom = False, has_star = True, used_mushroom = False, used_star = False,
        elapsed_time = 0, time_item_used = None\<rparr>
   \<and> fold (\<lambda>(wd, g). item_generation wd g) [(4, Mushroom), (8, Mushroom), (12, Star)]
       \<lparr>has_mushroom = False, has_star = True, used_mushroom = False, used_star = False,
        elapsed_time = 0, time_item_used = None\<rparr>
     = \<lparr>has_mushroom = False, has_star = True, used_mushroom = False, used_star = False,
        elapsed_time = 0, time_item_used = None\<rparr>
   \<and> \<not> has_mushroom initial_items \<and> \<not> has_star initial_items \<and> (4::int) \<noteq> 0
   \<and> item_generation 4 Mushroom initial_items = initial_items\<lparr>has_mushroom := True\<rparr>
   \<and> (0::int) = 0 \<and> item_generation 0 Mushroom initial_items = initial_items"
proof -
  have h1: "has_star \<lparr>has_mushroom = False, has_star = True, used_mushroom = False, used_star = False,
      elapsed_time = 0, time_item_used = None\<rparr>" by simp
  have h2: "\<not> has_mushroom initial_items \<and> \<not> has_star initial_items \<and> (4::int) \<noteq> 0"
    by (simp add: initial_items_def)
  note A = wheel_drop_acquisition[of "\<lparr>has_mushroom = False, has_star = True, used_mushroom = False,
      used_star = False, elapsed_time = 0, time_item_used = None\<rparr>" 4 Mushroom
      "[(4, Mushroom), (8, Mushroom), (12, Star)]"]
  note B = wheel_drop_acquisition[of initial_items 4 Mushroom "[]"]
  note C = wheel_drop_acquisition[of initial_items 0 Mushroom "[]"]
  from A h1 have a: "item_generation 4 Mushroom
       \<lparr>has_mushroom = False, has_star = True, used_mushroom = False, used_star = False,
        elapsed_time = 0, time_item_used = None\<rparr>
     = \<lparr>has_mushroom = False, has_star = True, used_mushroom = False, used_star = False,
        elapsed_time = 0, time_item_used = None\<rparr>
   \<and> fold (\<lambda>(wd, g). item_generation wd g) [(4, Mushroom), (8, Mushroom), (12, Star)]
       \<lparr>has_mushroom = False, has_star = True, used_mushroom = False, used_star = False,
        elapsed_time = 0, time_item_used = None\<rparr>
     = \<lparr>has_mushroom = False, has_star = True, used_mushroom = False, used_star = False,
        elapsed_time = 0, time_item_used = None\<rparr>" by blast
  from B h2 have b: "item_generation 4 Mushroom initial_items = initial_items\<lparr>has_mushroom := True\<rparr>"
    by simp
  from C have c: "item_generation 0 Mushroom initial_items = initial_items" by blast
  from h1 h2 a b c show ?thesis by blast
qed

subsection \<open>The mushroom\<close>

text \<open>
  While a mushroom is active with a recorded elapsed time below its duration, the
  velocity is the mushroom maximum whatever the triggers are.
\<close>

lemma mushroom_boost_velocity:
  "used_mushroom st \<Longrightarrow> elapsed_time st < MUSHROOM_DURATION \<Longrightarrow>
     fst (snd (item_effects fwd bwd rt lt now st)) = PInt MAX_VELOCITY_W_SHROOM"
  by (simp add: item_effects_def measure_elapsed_def split: option.splits)

lemmas tick_eval =
  tick_no_wobble serial_read_def serial_write_def index0_def POLL_BUMPERS_AND_DROPS_def
  item_generation_def item_usage_def item_effects_def measure_elapsed_def trigger_velocity_def
  initial_items_def MUSHROOM_DURATION_def MAX_VELOCITY_W_SHROOM_def MAX_VELOCITY_NO_ITEMS_def
  driving_forward_def driving_backward_def THRESHOLD_def apply_forward_velocity_def py_int_def
  poll_sticks_def MIN_RADIUS_def MAX_RADIUS_def apply_turning_radius_def drive_roomba_def
  velocity_bytes_def DRIVE_def

text \<open>
  C1. A run from program start with the forward trigger fully pulled throughout: a
  wheel drop gives a mushroom, the button uses it at time 10, and the ticks at 10.125
  and 11.75 are boosted (velocity 500, bytes 1 244). The tick at 11.75 is the first
  whose elapsed time (1.75) is at least the duration, and it is still boosted. The
  next tick starts with a recorded elapsed time above the duration: it deactivates
  the mushroom and leaves the velocity at the float 0.0, where the base policy gives
  300 (bytes 1 44); building the drive command raises TypeError, nothing is driven
  and the run ends, so no tick ever returns to the base policy. In the second run the
  boosted tick falls at 11.5, so that the next tick starts with a recorded elapsed
  time equal to the duration: it is not boosted either, the mushroom stays active,
  and the run ends with the same exception.
\<close>

theorem mushroom_expiry_raises:
  "main_loop False
     [\<lparr>axis0 = 0, axis5 = 1, axis2 = - 1, button0 = False, random_choice = Mushroom,
        time_at_use = 9, time_at_effect = 9\<rparr>,
      \<lparr>axis0 = 0, axis5 = 1, axis2 = - 1, button0 = True, random_choice = Mushroom,
        time_at_use = 10, time_at_effect = 81 / 8\<rparr>,
      \<lparr>axis0 = 0, axis5 = 1, axis2 = - 1, button0 = False, random_choice = Mushroom,
        time_at_use = 47 / 4, time_at_effect = 47 / 4\<rparr>,
      \<lparr>axis0 = 0, axis5 = 1, axis2 = - 1, button0 = False, random_choice = Mushroom,
        time_at_use = 12, time_at_effect = 12\<rparr>,
      \<lparr>axis0 = 0, axis5 = 1, axis2 = - 1, button0 = False, random_choice = Mushroom,
        time_at_use = 25 / 2, time_at_effect = 25 / 2\<rparr>]
     (initial_items, \<lparr>replies = [[4], [0], [0], [0], [0]], trace = []\<rparr>)
   = (Some TypeError,
      \<lparr>has_mushroom = False, has_star = False, used_mushroom = False, used_star = False,
        elapsed_time = 7 / 4, time_item_used = Some 10\<rparr>,
      \<lparr>replies = [[0]],
        trace = [Write [142, 7], Read 1 [4], Write [137, 1, 44, 128, 0],
                 Write [142, 7], Read 1 [0], Write [137, 1, 244, 128, 0],
                 Write [142, 7], Read 1 [0], Write [137, 1, 244, 128, 0],
                 Write [142, 7], Read 1 [0]]\<rparr>)
   \<and> MUSHROOM_DURATION \<le> 47 / 4 - 10
   \<and> trigger_velocity MAX_VELOCITY_NO_ITEMS (driving_forward 1) (driving_backward 1 (- 1)) 1 (- 1)
         (PFloat 0) = PInt 300
   \<and> velocity_bytes (PInt 300) = [PInt 1, PInt 44]
   \<and> main_loop False
     [\<lparr>axis0 = 0, axis5 = 1, axis2 = - 1, button0 = False, random_choice = Mushroom,
        time_at_use = 9, time_at_effect = 9\<rparr>,
      \<lparr>axis0 = 0, axis5 = 1, axis2 = - 1, button0 = True, random_choice = Mushroom,
        time_at_use = 10, time_at_effect = 81 / 8\<rparr>,
      \<lparr>axis0 = 0, axis5 = 1, axis2 = - 1, button0 = False, random_choice = Mushroom,
        time_at_use = 23 / 2, time_at_effect = 23 / 2\<rparr>,
      \<lparr>axis0 = 0, axis5 = 1, axis2 = - 1, button0 = False, random_choice = Mushroom,
        time_at_use = 12, time_at_effect = 12\<rparr>,
      \<lparr>axis0 = 0, axis5 = 1, axis2 = - 1, button0 = False, random_choice = Mushroom,
        time_at_use = 25 / 2, time_at_effect = 25 / 2\<rparr>]
     (initial_items, \<lparr>replies = [[4], [0], [0], [0], [0]], trace = []\<rparr>)
   = (Some TypeError,
      \<lparr>has_mushroom = False, has_star = False, used_mushroom = True, used_star = False,
        elapsed_time = 3 / 2, time_item_used = Some 10\<rparr>,
      \<lparr>replies = [[0]],
        trace = [Write [142, 7], Read 1 [4], Write [137, 1, 44, 128, 0],
                 Write [142, 7], Read 1 [0], Write [137, 1, 244, 128, 0],
                 Write [142, 7], Read 1 [0], Write [137, 1, 244, 128, 0],
                 Write [142, 7], Read 1 [0]]\<rparr>)"
  by (simp add: tick_eval)

subsection \<open>The velocity at rest\<close>

lemma time_bound_before_effects:
  assumes "used_star st \<longrightarrow> time_item_used st \<noteq> None"
  shows "used_star (item_usage u now (item_generation wd g st)) \<longrightarrow>
           time_item_used (item_usage u now (item_generation wd g st)) \<noteq> None"
  using assms by (auto simp: item_usage_def item_generation_def Let_def)

lemma item_effects_at_rest:
  assumes "\<not> (used_mushroom st \<and> elapsed_time st < MUSHROOM_DURATION)"
  shows "fst (snd (item_effects False False rt lt now st)) = PFloat 0"
  using assms
  by (auto simp: item_effects_def measure_elapsed_def trigger_velocity_def Let_def split: option.splits)

lemma item_effects_at_rest_no_error:
  assumes "\<not> (used_mushroom st \<and> elapsed_time st < MUSHROOM_DURATION)"
    and "used_star st \<longrightarrow> time_item_used st \<noteq> None"
  shows "\<exists>st'. item_effects False False rt lt now st = (None, PFloat 0, st')"
  using assms
  by (auto simp: item_effects_def measure_elapsed_def trigger_velocity_def Let_def split: option.splits)

text \<open>
  C3, as stated, fails: with wobble enabled, an idle tick at program start (neither
  trigger pulled, no item) does not reach the velocity or the drive command. It ends
  in the collision check with NameError, not with the TypeError of the bytearray
  construction.
\<close>

theorem idle_tick_with_wobble_counterexample:
  "\<not> (- 1 :: pyfloat) + 1 > THRESHOLD
   \<and> tick True \<lparr>axis0 = 0, axis5 = - 1, axis2 = - 1, button0 = False, random_choice = Star,
                 time_at_use = 10, time_at_effect = 10\<rparr>
        (initial_items, \<lparr>replies = [[0]], trace = []\<rparr>)
     = (Some (NameError ''cc''), initial_items, \<lparr>replies = [[0]], trace = []\<rparr>)
   \<and> NameError ''cc'' \<noteq> TypeError"
  by (simp add: tick_def detect_front_collision_def cc_unbound THRESHOLD_def)

text \<open>
  C3, amended. Take a tick with wobble disabled whose sensor read returns a byte, on
  which neither trigger exceeds the threshold and no mushroom boost is applied (after
  acquisition and use, it is not the case that a mushroom is active with a recorded
  elapsed time below its duration), started in a state where \<^verbatim>\<open>time_item_used\<close> is
  bound if a star is active. Then the velocity that the effect stage leaves is the
  float 0.0, the velocity byte pair is two floats, building the drive command's
  bytearray raises TypeError, and the tick ends with that exception having added
  only the poll and its read to the trace: no drive command is written.
\<close>

theorem idle_tick_fails:
  assumes "\<not> axis5 s + 1 > THRESHOLD" and "\<not> axis2 s + 1 > THRESHOLD"
    and "serial_read 1 (serial_write POLL_BUMPERS_AND_DROPS w) = ([b], w2)"
    and "st2 = item_usage (button0 s) (time_at_use s)
                 (item_generation (uint b AND 12) (random_choice s) st)"
    and "\<not> (used_mushroom st2 \<and> elapsed_time st2 < MUSHROOM_DURATION)"
    and "used_star st \<longrightarrow> time_item_used st \<noteq> None"
  shows "fst (snd (item_effects (driving_forward (axis5 s)) (driving_backward (axis5 s) (axis2 s))
                     (axis5 s) (axis2 s) (time_at_effect s) st2)) = PFloat 0
     \<and> velocity_bytes (PFloat 0) = [PFloat 0, PFloat 0]
     \<and> bytearray (map PInt DRIVE @ velocity_bytes (PFloat 0) @ map PInt radius_bytes) = Inl TypeError
     \<and> (\<exists>st'. tick False s (st, w) = (Some TypeError, st', w2))
     \<and> added w w2 = [Write POLL_BUMPERS_AND_DROPS, Read 1 [b]]"
proof -
  have f: "driving_forward (axis5 s) = False" and bk: "driving_backward (axis5 s) (axis2 s) = False"
    using assms(1,2) by (simp_all add: driving_forward_def driving_backward_def)
  have 1: "fst (snd (item_effects (driving_forward (axis5 s)) (driving_backward (axis5 s) (axis2 s))
                     (axis5 s) (axis2 s) (time_at_effect s) st2)) = PFloat 0"
    unfolding f bk by (rule item_effects_at_rest[OF assms(5)])
  have 2: "velocity_bytes (PFloat 0) = [PFloat 0, PFloat 0]"
    by (rule velocity_bytes_PFloat)
  have 3: "bytearray (map PInt DRIVE @ velocity_bytes (PFloat 0) @ map PInt radius_bytes) = Inl TypeError"
    by (simp add: 2 DRIVE_def)
  have tb: "used_star st2 \<longrightarrow> time_item_used st2 \<noteq> None"
    unfolding assms(4) by (rule time_bound_before_effects[OF assms(6)])
  from item_effects_at_rest_no_error[OF assms(5) tb]
  obtain st' where ie: "item_effects False False (axis5 s) (axis2 s) (time_at_effect s) st2
                          = (None, PFloat 0, st')" by blast
  have i0: "index0 [b] = Inr (uint b)" by (simp add: index0_def)
  have 4: "tick False s (st, w) = (Some TypeError, st', w2)"
    unfolding tick_no_wobble assms(3) prod.case i0 sum.case f bk assms(4)[symmetric] ie option.case
    by (simp add: drive_roomba_float)
  have 5: "added w w2 = [Write POLL_BUMPERS_AND_DROPS, Read 1 [b]]"
    using serial_read_trace[OF assms(3)] by (simp add: added_def serial_write_def)
  from 1 2 3 4 5 show ?thesis by blast
qed

theorem idle_tick_fails_witness:
  "\<not> (- 1 :: pyfloat) + 1 > THRESHOLD
   \<and> serial_read 1 (serial_write POLL_BUMPERS_AND_DROPS \<lparr>replies = [[0]], trace = []\<rparr>)
       = ([0], \<lparr>replies = [], trace = [Write POLL_BUMPERS_AND_DROPS, Read 1 [0]]\<rparr>)
   \<and> \<not> used_mushroom initial_items
   \<and> \<not> used_star initial_items
   \<and> (\<exists>st'. tick False \<lparr>axis0 = 0, axis5 = - 1, axis2 = - 1, button0 = False, random_choice = Star,
                    time_at_use = 10, time_at_effect = 10\<rparr>
                  (initial_items, \<lparr>replies = [[0]], trace = []\<rparr>)
              = (Some TypeError, st',
                 \<lparr>replies = [], trace = [Write POLL_BUMPERS_AND_DROPS, Read 1 [0]]\<rparr>))
   \<and> used_star \<lparr>has_mushroom = False, has_star = False, used_mushroom = False, used_star = True,
                 elapsed_time = 1, time_item_used = Some 10\<rparr>
   \<and> (\<exists>st'. tick False \<lparr>axis0 = 0, axis5 = - 1, axis2 = - 1, button0 = False, random_choice = Star,
                    time_at_use = 12, time_at_effect = 12\<rparr>
                  (\<lparr>has_mushroom = False, has_star = False, used_mushroom = False, used_star = True,
                    elapsed_time = 1, time_item_used = Some 10\<rparr>, \<lparr>replies = [[0]], trace = []\<rparr>)
              = (Some TypeError, st',
                 \<lparr>replies = [], trace = [Write POLL_BUMPERS_AND_DROPS, Read 1 [0]]\<rparr>))"
proof -
  let ?s = "\<lparr>axis0 = 0, axis5 = - 1, axis2 = - 1, button0 = False, random_choice = Star,
             time_at_use = 10, time_at_effect = 10\<rparr>"
  let ?s' = "\<lparr>axis0 = 0, axis5 = - 1, axis2 = - 1, button0 = False, random_choice = Star,
             time_at_use = 12, time_at_effect = 12\<rparr>"
  let ?star = "\<lparr>has_mushroom = False, has_star = False, used_mushroom = False, used_star = True,
                 elapsed_time = 1, time_item_used = Some 10\<rparr>"
  let ?w = "\<lparr>replies = [[0]], trace = []\<rparr>"
  let ?w2 = "\<lparr>replies = [], trace = [Write POLL_BUMPERS_AND_DROPS, Read 1 [0]]\<rparr>"
  have t: "\<not> (- 1 :: pyfloat) + 1 > THRESHOLD" by (simp add: THRESHOLD_def)
  have a5: "\<not> axis5 ?s + 1 > THRESHOLD" and a2: "\<not> axis2 ?s + 1 > THRESHOLD"
    and a5': "\<not> axis5 ?s' + 1 > THRESHOLD" and a2': "\<not> axis2 ?s' + 1 > THRESHOLD"
    by (simp_all add: THRESHOLD_def)
  have r: "serial_read 1 (serial_write POLL_BUMPERS_AND_DROPS ?w) = ([0], ?w2)"
    by (simp add: serial_read_def serial_write_def)
  have g: "item_usage (button0 ?s) (time_at_use ?s)
             (item_generation (uint (0 :: byte) AND 12) (random_choice ?s) initial_items) = initial_items"
    by (simp add: item_usage_def item_generation_def initial_items_def)
  have g': "item_usage (button0 ?s') (time_at_use ?s')
             (item_generation (uint (0 :: byte) AND 12) (random_choice ?s') ?star) = ?star"
    by (simp add: item_usage_def item_generation_def)
  have m: "\<not> (used_mushroom initial_items \<and> elapsed_time initial_items < MUSHROOM_DURATION)"
    and m': "\<not> (used_mushroom ?star \<and> elapsed_time ?star < MUSHROOM_DURATION)"
    by (simp_all add: initial_items_def)
  have b: "used_star initial_items \<longrightarrow> time_item_used initial_items \<noteq> None"
    and b': "used_star ?star \<longrightarrow> time_item_used ?star \<noteq> None"
    by (simp_all add: initial_items_def)
  have u: "\<not> used_mushroom initial_items" "\<not> used_star initial_items" "used_star ?star"
    by (simp_all add: initial_items_def)
  from idle_tick_fails[OF a5 a2 r g[symmetric] m b]
  have A: "\<exists>st'. tick False ?s (initial_items, ?w) = (Some TypeError, st', ?w2)" by blast
  from idle_tick_fails[OF a5' a2' r g'[symmetric] m' b']
  have B: "\<exists>st'. tick False ?s' (?star, ?w) = (Some TypeError, st', ?w2)" by blast
  from t r u A B show ?thesis by blast
qed

end
